theory Spec2Isabelle
  imports Main
begin

section \<open>Data model\<close>

text \<open>
  The application component of \<^verbatim>\<open>src/src/main.jsx\<close> keeps four pieces of React state:
  the milestone array, the form object, the id being edited (\<^verbatim>\<open>null\<close> or a string) and
  the \<^verbatim>\<open>Set\<close> of hidden timelines. A milestone and the form are plain objects with
  string fields. The \<^verbatim>\<open>notes\<close> field is optional: the form reset of \<^verbatim>\<open>handleDelete\<close>
  leaves it out, so reading it gives \<^verbatim>\<open>undefined\<close>, modelled by \<open>None\<close>.
\<close>

record milestone =
  m_id :: string
  m_title :: string
  m_timeline :: string
  m_start :: string
  m_end :: string
  m_notes :: "string option"

record form =
  f_title :: string
  f_timeline :: string
  f_start :: string
  f_end :: string
  f_notes :: "string option"

text \<open>
  The hidden timelines are only ever queried with \<^verbatim>\<open>has\<close>, so that \<^verbatim>\<open>Set\<close> is a HOL set.
\<close>

record app_state =
  milestones :: "milestone list"
  form :: form
  editingId :: "string option"
  hidden :: "string set"

text \<open>
  \<^verbatim>\<open>parseISO(s).getTime()\<close>: the number of milliseconds of the parsed instant, or
  \<^verbatim>\<open>NaN\<close> when \<^verbatim>\<open>parseISO\<close> returns an invalid date. The parser belongs to the
  \<^verbatim>\<open>date-fns\<close> library; the transform takes it as a parameter of this type.
\<close>

datatype timestamp = NaN | Ms int

type_synonym date_parser = "string \<Rightarrow> timestamp"

type_synonym color_family = "string \<times> string \<times> string"

record point =
  p_x :: "timestamp \<times> timestamp"
  p_y :: string
  p_title :: string
  p_id :: string

text \<open>
  A dataset as handed to the chart. The static \<^verbatim>\<open>datalabels\<close> configuration object of
  each dataset is the same constant for every input and is left out.
\<close>

record dataset =
  d_label :: string
  d_data :: "point list"
  d_backgroundColor :: string
  d_borderColor :: string
  d_borderWidth :: nat
  d_borderRadius :: nat
  d_hidden :: bool

record chart =
  labels :: "string list"
  datasets :: "dataset list"

datatype js_error = TypeError

section \<open>Colour palette\<close>

definition colorFamilies :: "color_family list" where
  "colorFamilies =
    [(''#E3F2FD'', ''#42A5F5'', ''#1E88E5''),
     (''#E8F5E9'', ''#66BB6A'', ''#43A047''),
     (''#F3E5F5'', ''#AB47BC'', ''#8E24AA''),
     (''#FFF8E1'', ''#FFB300'', ''#FB8C00''),
     (''#E0F2F1'', ''#26A69A'', ''#00897B'')]"

definition getColorFamily :: "nat \<Rightarrow> color_family" where
  "getColorFamily index = colorFamilies ! (index mod length colorFamilies)"

definition fallbackFamily :: color_family where
  "fallbackFamily = (''#ccc'', ''#888'', ''#555'')"

section \<open>Timeline index\<close>

text \<open>
  \<^verbatim>\<open>Array.from(new Set(milestones.map(m => m.timeline)))\<close>. A JavaScript \<^verbatim>\<open>Set\<close> built from
  an array adds the elements one by one; an element already present is ignored, a new one
  goes to the end of the iteration order, and \<^verbatim>\<open>Array.from\<close> reads that order. This
  \<^verbatim>\<open>Set\<close> is therefore modelled by the list of its elements in insertion order.
\<close>

definition set_add :: "'a list \<Rightarrow> 'a \<Rightarrow> 'a list" where
  "set_add s x = (if x \<in> set s then s else s @ [x])"

definition new_Set :: "'a list \<Rightarrow> 'a list" where
  "new_Set xs = foldl set_add [] xs"

definition timelines :: "milestone list \<Rightarrow> string list" where
  "timelines ms = new_Set (map m_timeline ms)"

text \<open>
  The algorithm in the words of the specification: scan in order, collect a value the first
  time it is seen, skip it afterwards. The first argument is the set of values seen so far.
\<close>

fun first_seen :: "'a set \<Rightarrow> 'a list \<Rightarrow> 'a list" where
  "first_seen seen [] = []"
| "first_seen seen (x # xs) =
     (if x \<in> seen then first_seen seen xs else x # first_seen (insert x seen) xs)"

section \<open>Colour assignment\<close>

text \<open>
  \<^verbatim>\<open>timelineColors\<close> fills an object with \<^verbatim>\<open>map[t] = getColorFamily(idx)\<close> for every
  timeline and its position. The object is only read at keys that are timelines of the
  index, where the read returns the value stored; it is modelled by a finite map.
\<close>

definition setColor ::
  "nat \<times> string \<Rightarrow> (string \<rightharpoonup> color_family) \<Rightarrow> (string \<rightharpoonup> color_family)"
where
  "setColor p mp = (case p of (idx, t) \<Rightarrow> mp(t \<mapsto> getColorFamily idx))"

definition timelineColors :: "string list \<Rightarrow> (string \<rightharpoonup> color_family)" where
  "timelineColors ts = fold setColor (enumerate 0 ts) Map.empty"

text \<open>\<^verbatim>\<open>timelineColors[timeline] || ['#ccc', '#888', '#555']\<close>\<close>

definition colorOf :: "(string \<rightharpoonup> color_family) \<Rightarrow> string \<Rightarrow> color_family" where
  "colorOf colors t = (case colors t of Some c \<Rightarrow> c | None \<Rightarrow> fallbackFamily)"

section \<open>Chart data transform\<close>

text \<open>
  The transform groups the milestones in a plain object \<^verbatim>\<open>grouped = {}\<close>. Its own properties
  are kept as an association list in creation order. Two features of JavaScript objects are
  visible in the result and are part of the model.

  \<^item> A plain object inherits the properties of \<^verbatim>\<open>Object.prototype\<close>. For such a key
    \<^verbatim>\<open>grouped[key]\<close> is a function or an object even though no group was created, so
    \<^verbatim>\<open>!grouped[key]\<close> is false, no array is stored, and \<^verbatim>\<open>grouped[key].push(m)\<close> calls
    \<^verbatim>\<open>undefined\<close>: a \<^verbatim>\<open>TypeError\<close>.
  \<^item> \<^verbatim>\<open>Object.entries\<close> lists the own properties whose key is an array index (the
    canonical decimal form of an integer from 0 to 2^32 - 2) first, in ascending numeric
    order, and the other string keys after them in creation order.
\<close>

definition objectPrototypeKeys :: "string list" where
  "objectPrototypeKeys =
    [''constructor'', ''__proto__'', ''hasOwnProperty'', ''isPrototypeOf'',
     ''propertyIsEnumerable'', ''toLocaleString'', ''toString'', ''valueOf'',
     ''__defineGetter__'', ''__defineSetter__'', ''__lookupGetter__'', ''__lookupSetter__'']"

type_synonym grouped = "(string \<times> milestone list) list"

text \<open>
  \<^verbatim>\<open>if (!grouped[k]) grouped[k] = []; grouped[k].push(m)\<close> for a key that is an own
  property or not inherited: an existing group is extended in place, a new one is created
  behind all others.
\<close>

fun push_group :: "string \<Rightarrow> milestone \<Rightarrow> grouped \<Rightarrow> grouped" where
  "push_group k m [] = [(k, [m])]"
| "push_group k m ((k', ms) # g) =
     (if k' = k then (k', ms @ [m]) # g else (k', ms) # push_group k m g)"

definition inherited_only :: "grouped \<Rightarrow> string \<Rightarrow> bool" where
  "inherited_only g k = (k \<notin> fst ` set g \<and> k \<in> set objectPrototypeKeys)"

fun group_milestones :: "grouped \<Rightarrow> milestone list \<Rightarrow> js_error + grouped" where
  "group_milestones g [] = Inr g"
| "group_milestones g (m # ms) =
     (if inherited_only g (m_timeline m) then Inl TypeError
      else group_milestones (push_group (m_timeline m) m g) ms)"

definition is_digit :: "char \<Rightarrow> bool" where
  "is_digit c = (c \<in> set ''0123456789'')"

definition digits_value :: "string \<Rightarrow> nat" where
  "digits_value s = foldl (\<lambda>n c. 10 * n + (of_char c - 48)) 0 s"

definition is_array_index :: "string \<Rightarrow> bool" where
  "is_array_index s =
     (s \<noteq> [] \<and> list_all is_digit s \<and> (s = ''0'' \<or> hd s \<noteq> CHR ''0'')
      \<and> digits_value s \<le> 4294967294)"

definition object_entries :: "(string \<times> 'v) list \<Rightarrow> (string \<times> 'v) list" where
  "object_entries g =
     sort_key (\<lambda>e. digits_value (fst e)) (filter (\<lambda>e. is_array_index (fst e)) g)
     @ filter (\<lambda>e. \<not> is_array_index (fst e)) g"

definition mk_point :: "date_parser \<Rightarrow> string \<Rightarrow> milestone \<Rightarrow> point" where
  "mk_point parseISO timeline m =
     \<lparr>p_x = (parseISO (m_start m), parseISO (m_end m)), p_y = timeline,
      p_title = m_title m, p_id = m_id m\<rparr>"

definition mk_dataset ::
  "date_parser \<Rightarrow> (string \<rightharpoonup> color_family) \<Rightarrow> string set \<Rightarrow> string \<times> milestone list \<Rightarrow> dataset"
where
  "mk_dataset parseISO colors hid e =
     (case e of (timeline, ms) \<Rightarrow>
        (case colorOf colors timeline of (light, mid, dark) \<Rightarrow>
           \<lparr>d_label = timeline, d_data = map (mk_point parseISO timeline) ms,
            d_backgroundColor = mid, d_borderColor = dark, d_borderWidth = 1,
            d_borderRadius = 4, d_hidden = (timeline \<in> hid)\<rparr>))"

text \<open>
  The memoised \<^verbatim>\<open>chartData\<close>, a function of its dependency list
  \<^verbatim>\<open>[milestones, timelines, hidden, timelineColors]\<close>.
\<close>

definition chartData ::
  "date_parser \<Rightarrow> milestone list \<Rightarrow> string list \<Rightarrow> string set \<Rightarrow> (string \<rightharpoonup> color_family)
     \<Rightarrow> js_error + chart"
where
  "chartData parseISO ms tls hid colors =
     (case group_milestones [] ms of
        Inl e \<Rightarrow> Inl e
      | Inr g \<Rightarrow>
          Inr \<lparr>labels = tls, datasets = map (mk_dataset parseISO colors hid) (object_entries g)\<rparr>)"

text \<open>The chart data of a render: the dependencies are derived from the current state.\<close>

definition render_chartData :: "date_parser \<Rightarrow> app_state \<Rightarrow> js_error + chart" where
  "render_chartData parseISO s =
     chartData parseISO (milestones s) (timelines (milestones s)) (hidden s)
       (timelineColors (timelines (milestones s)))"

section \<open>Event handlers\<close>

text \<open>
  \<^verbatim>\<open>editingId\<close> is tested for truthiness: \<^verbatim>\<open>null\<close> and the empty string are falsy.
\<close>

definition truthy :: "string option \<Rightarrow> bool" where
  "truthy e = (case e of None \<Rightarrow> False | Some i \<Rightarrow> i \<noteq> [])"

text \<open>
  The form of the initial state and the one \<^verbatim>\<open>handleSubmit\<close> leaves behind have five
  empty fields; the reset of \<^verbatim>\<open>handleDelete\<close> has the four required ones only. In
  the first two object literals the source text has the \<^verbatim>\<open>notes\<close> entry spliced into
  a neighbouring entry; they are read as the five entries they are made of.
\<close>

definition emptyForm :: form where
  "emptyForm = \<lparr>f_title = [], f_timeline = [], f_start = [], f_end = [], f_notes = Some []\<rparr>"

definition clearedForm :: form where
  "clearedForm = \<lparr>f_title = [], f_timeline = [], f_start = [], f_end = [], f_notes = None\<rparr>"

text \<open>The state of the first render, from the array read from the store.\<close>

definition initialState :: "milestone list \<Rightarrow> app_state" where
  "initialState saved = \<lparr>milestones = saved, form = emptyForm, editingId = None, hidden = {}\<rparr>"

text \<open>
  \<^verbatim>\<open>handleFormChange\<close> stores the value of an input under the input's name; the form has
  five inputs.
\<close>

datatype form_field = Title | Timeline | Start | End | Notes

fun handleFormChange :: "form_field \<Rightarrow> string \<Rightarrow> app_state \<Rightarrow> app_state" where
  "handleFormChange Title v s = s\<lparr>form := (form s)\<lparr>f_title := v\<rparr>\<rparr>"
| "handleFormChange Timeline v s = s\<lparr>form := (form s)\<lparr>f_timeline := v\<rparr>\<rparr>"
| "handleFormChange Start v s = s\<lparr>form := (form s)\<lparr>f_start := v\<rparr>\<rparr>"
| "handleFormChange End v s = s\<lparr>form := (form s)\<lparr>f_end := v\<rparr>\<rparr>"
| "handleFormChange Notes v s = s\<lparr>form := (form s)\<lparr>f_notes := Some v\<rparr>\<rparr>"

definition newMilestone :: "string \<Rightarrow> form \<Rightarrow> milestone" where
  "newMilestone i f =
     \<lparr>m_id = i, m_title = f_title f, m_timeline = f_timeline f, m_start = f_start f,
      m_end = f_end f, m_notes = f_notes f\<rparr>"

text \<open>
  \<^verbatim>\<open>handleSubmit\<close>. The first argument is the value that \<^verbatim>\<open>uuidv4()\<close> returns when it
  is called, which happens only when \<^verbatim>\<open>editingId\<close> is falsy.
\<close>

definition handleSubmit :: "string \<Rightarrow> app_state \<Rightarrow> app_state" where
  "handleSubmit uuid s =
     (let f = form s in
      if f_title f = [] \<or> f_timeline f = [] \<or> f_start f = [] \<or> f_end f = [] then s
      else
        let n = newMilestone (case editingId s of None \<Rightarrow> uuid
                              | Some i \<Rightarrow> if i \<noteq> [] then i else uuid) f
        in s\<lparr>milestones :=
               (if truthy (editingId s)
                then map (\<lambda>m. if Some (m_id m) = editingId s then n else m) (milestones s)
                else milestones s @ [n]),
             form := emptyForm,
             editingId := None\<rparr>)"

definition handleEdit :: "milestone \<Rightarrow> app_state \<Rightarrow> app_state" where
  "handleEdit m s =
     s\<lparr>form := \<lparr>f_title = m_title m, f_timeline = m_timeline m, f_start = m_start m,
                 f_end = m_end m, f_notes = m_notes m\<rparr>,
       editingId := Some (m_id m)\<rparr>"

definition handleDelete :: "string \<Rightarrow> app_state \<Rightarrow> app_state" where
  "handleDelete i s =
     (let s' = s\<lparr>milestones := filter (\<lambda>m. m_id m \<noteq> i) (milestones s)\<rparr>
      in if editingId s = Some i then s'\<lparr>editingId := None, form := clearedForm\<rparr> else s')"

definition toggleTimeline :: "string \<Rightarrow> app_state \<Rightarrow> app_state" where
  "toggleTimeline t s =
     s\<lparr>hidden := (if t \<in> hidden s then hidden s - {t} else insert t (hidden s))\<rparr>"

section \<open>Sample data\<close>

text \<open>
  Concrete inputs for the examples below. \<open>sampleParseISO\<close> stands for the library parser
  in a UTC environment on the strings the examples use: it knows the three dates of the
  specification's scenario and, like \<^verbatim>\<open>parseISO\<close> on a string that is no date, yields
  \<open>NaN\<close> on the others.
\<close>

definition sampleParseISO :: date_parser where
  "sampleParseISO s =
     (if s = ''2010-06-01'' then Ms 1275350400000
      else if s = ''2010-07-01'' then Ms 1277942400000
      else if s = ''2015-01-01'' then Ms 1420070400000
      else NaN)"

definition milestoneOf :: "string \<Rightarrow> string \<Rightarrow> string \<Rightarrow> string \<Rightarrow> string \<Rightarrow> milestone" where
  "milestoneOf i title timeline a b =
     \<lparr>m_id = i, m_title = title, m_timeline = timeline, m_start = a, m_end = b,
      m_notes = Some []\<rparr>"

definition sixTimelines :: "milestone list" where
  "sixTimelines =
     map (\<lambda>t. milestoneOf t ''Event'' t ''2010-06-01'' ''2010-07-01'')
       [''Zeta'', ''Work'', ''Home'', ''Art'', ''Kids'', ''Alpha'']"

definition formOf :: "string \<Rightarrow> string \<Rightarrow> string \<Rightarrow> string \<Rightarrow> form" where
  "formOf title timeline a b =
     \<lparr>f_title = title, f_timeline = timeline, f_start = a, f_end = b, f_notes = Some []\<rparr>"

section \<open>Auxiliary lemmas\<close>

subsection \<open>Timeline index\<close>

lemma foldl_set_add_first_seen: "foldl set_add acc xs = acc @ first_seen (set acc) xs"
  by (induction xs arbitrary: acc) (auto simp: set_add_def)

lemma distinct_foldl_set_add: "distinct acc \<Longrightarrow> distinct (foldl set_add acc xs)"
  by (induction xs arbitrary: acc) (auto simp: set_add_def)

lemma set_foldl_set_add: "set (foldl set_add acc xs) = set acc \<union> set xs"
  by (induction xs arbitrary: acc) (auto simp: set_add_def)

lemma distinct_timelines: "distinct (timelines ms)"
  by (simp add: timelines_def new_Set_def distinct_foldl_set_add)

lemma set_timelines: "set (timelines ms) = m_timeline ` set ms"
  by (simp add: timelines_def new_Set_def set_foldl_set_add)

lemma timelines_snoc: "timelines (ms @ [m]) = set_add (timelines ms) (m_timeline m)"
  by (simp add: timelines_def new_Set_def)

subsection \<open>Grouping\<close>

lemma group_milestones_foldl:
  "\<forall>m \<in> set ms. m_timeline m \<notin> set objectPrototypeKeys \<Longrightarrow>
   group_milestones g ms = Inr (foldl (\<lambda>g m. push_group (m_timeline m) m g) g ms)"
  by (induction ms arbitrary: g) (auto simp: inherited_only_def)

lemma push_group_map:
  "distinct ts \<Longrightarrow>
   push_group k m (map (\<lambda>t. (t, F t)) ts) =
     (if k \<in> set ts then map (\<lambda>t. (t, if t = k then F t @ [m] else F t)) ts
      else map (\<lambda>t. (t, F t)) ts @ [(k, [m])])"
  by (induction ts) auto

lemma foldl_push_group:
  "foldl (\<lambda>g m. push_group (m_timeline m) m g) [] ms =
   map (\<lambda>t. (t, filter (\<lambda>m. m_timeline m = t) ms)) (timelines ms)"
proof (induction ms rule: rev_induct)
  case Nil
  then show ?case by (simp add: timelines_def new_Set_def)
next
  case (snoc m ms)
  let ?k = "m_timeline m"
  show ?case
  proof (cases "?k \<in> set (timelines ms)")
    case True
    then show ?thesis
      using snoc distinct_timelines[of ms]
      by (auto simp: push_group_map timelines_snoc set_add_def)
  next
    case False
    then have "\<forall>x \<in> set ms. m_timeline x \<noteq> ?k"
      unfolding set_timelines by (metis image_eqI)
    then have "filter (\<lambda>x. m_timeline x = ?k) ms = []"
      by (simp add: filter_empty_conv)
    with False show ?thesis
      using snoc distinct_timelines[of ms]
      by (auto simp: push_group_map timelines_snoc set_add_def)
  qed
qed

lemma object_entries_plain:
  "\<forall>e \<in> set g. \<not> is_array_index (fst e) \<Longrightarrow> object_entries g = g"
  by (simp add: object_entries_def)

lemma set_object_entries: "set (object_entries g) = set g"
  by (auto simp: object_entries_def)

lemma chartData_plain_keys:
  assumes "\<forall>m \<in> set ms. m_timeline m \<notin> set objectPrototypeKeys \<and> \<not> is_array_index (m_timeline m)"
  shows "chartData P ms (timelines ms) hid colors =
     Inr \<lparr>labels = timelines ms,
          datasets = map (\<lambda>t. mk_dataset P colors hid (t, filter (\<lambda>m. m_timeline m = t) ms)) (timelines ms)\<rparr>"
proof -
  have g: "group_milestones [] ms = Inr (map (\<lambda>t. (t, filter (\<lambda>m. m_timeline m = t) ms)) (timelines ms))"
    using assms by (simp add: group_milestones_foldl foldl_push_group)
  have "\<forall>e \<in> set (map (\<lambda>t. (t, filter (\<lambda>m. m_timeline m = t) ms)) (timelines ms)). \<not> is_array_index (fst e)"
    using assms by (auto simp: set_timelines)
  then show ?thesis
    by (simp add: chartData_def g object_entries_plain comp_def)
qed

text \<open>Every milestone ends up in the group of its timeline.\<close>

lemma push_group_keeps:
  "(k', grp) \<in> set g \<Longrightarrow> x \<in> set grp \<Longrightarrow> \<exists>grp'. (k', grp') \<in> set (push_group k m g) \<and> x \<in> set grp'"
proof (induction g)
  case Nil
  then show ?case by simp
next
  case (Cons e g)
  obtain k0 g0 where e: "e = (k0, g0)" by (cases e)
  show ?case
  proof (cases "k0 = k")
    case True
    with e Cons.prems show ?thesis by auto
  next
    case neq: False
    show ?thesis
    proof (cases "(k', grp) = e")
      case True
      with e neq Cons.prems show ?thesis by auto
    next
      case False
      with Cons.prems have "(k', grp) \<in> set g" by simp
      from Cons.IH[OF this Cons.prems(2)] e neq show ?thesis by auto
    qed
  qed
qed

lemma push_group_adds: "\<exists>grp. (k, grp) \<in> set (push_group k m g) \<and> m \<in> set grp"
proof (induction g)
  case Nil
  then show ?case by simp
next
  case (Cons e g)
  obtain k0 g0 where e: "e = (k0, g0)" by (cases e)
  from Cons.IH e show ?case by (cases "k0 = k") auto
qed

lemma group_milestones_keeps:
  "group_milestones g ms = Inr g' \<Longrightarrow> (k, grp) \<in> set g \<Longrightarrow> x \<in> set grp \<Longrightarrow>
   \<exists>grp'. (k, grp') \<in> set g' \<and> x \<in> set grp'"
proof (induction ms arbitrary: g grp)
  case Nil
  then show ?case by auto
next
  case (Cons m ms)
  from Cons.prems(1) have r: "group_milestones (push_group (m_timeline m) m g) ms = Inr g'"
    by (simp split: if_splits)
  from push_group_keeps[OF Cons.prems(2,3)] obtain grp1
    where "(k, grp1) \<in> set (push_group (m_timeline m) m g)" "x \<in> set grp1" by blast
  with Cons.IH[OF r] show ?case by blast
qed

lemma group_milestones_member:
  "group_milestones g ms = Inr g' \<Longrightarrow> m \<in> set ms \<Longrightarrow>
   \<exists>grp. (m_timeline m, grp) \<in> set g' \<and> m \<in> set grp"
proof (induction ms arbitrary: g)
  case Nil
  then show ?case by simp
next
  case (Cons a ms)
  from Cons.prems(1) have r: "group_milestones (push_group (m_timeline a) a g) ms = Inr g'"
    by (simp split: if_splits)
  show ?case
  proof (cases "m = a")
    case True
    from push_group_adds[of "m_timeline a" a g] obtain grp1
      where "(m_timeline a, grp1) \<in> set (push_group (m_timeline a) a g)" "a \<in> set grp1" by blast
    with group_milestones_keeps[OF r] True show ?thesis by blast
  next
    case False
    with Cons.prems(2) have "m \<in> set ms" by simp
    with Cons.IH[OF r] show ?thesis by blast
  qed
qed

subsection \<open>Colours\<close>

lemma fold_setColor_other:
  "k \<notin> set ts \<Longrightarrow> fold setColor (enumerate n ts) mp k = mp k"
  by (induction ts arbitrary: n mp) (simp_all add: setColor_def)

lemma fold_setColor_nth:
  "distinct ts \<Longrightarrow> i < length ts \<Longrightarrow>
   fold setColor (enumerate n ts) mp (ts ! i) = Some (getColorFamily (n + i))"
proof (induction ts arbitrary: n mp i)
  case Nil
  then show ?case by simp
next
  case (Cons t ts)
  show ?case
  proof (cases i)
    case 0
    with Cons.prems show ?thesis by (simp add: fold_setColor_other) (simp add: setColor_def)
  next
    case (Suc j)
    with Cons.prems Cons.IH[of j "Suc n"] show ?thesis by simp
  qed
qed

lemma timelineColors_nth:
  "distinct ts \<Longrightarrow> i < length ts \<Longrightarrow> timelineColors ts (ts ! i) = Some (getColorFamily i)"
  using fold_setColor_nth[of ts i 0 Map.empty] by (simp add: timelineColors_def)

subsection \<open>Replacing records by id\<close>


lemma map_replace_ids:
  "m_id n = e \<Longrightarrow> map m_id (map (\<lambda>m. if m_id m = e then n else m) ms) = map m_id ms"
  by (induction ms) auto

subsection \<open>Typing into the form\<close>

lemma handleFormChange_frame:
  "milestones (handleFormChange n v s) = milestones s
   \<and> editingId (handleFormChange n v s) = editingId s
   \<and> hidden (handleFormChange n v s) = hidden s"
  by (cases n) simp_all

lemma fold_handleFormChange_frame:
  "milestones (fold (\<lambda>c. handleFormChange (fst c) (snd c)) cs s) = milestones s
   \<and> editingId (fold (\<lambda>c. handleFormChange (fst c) (snd c)) cs s) = editingId s
   \<and> hidden (fold (\<lambda>c. handleFormChange (fst c) (snd c)) cs s) = hidden s"
  by (induction cs arbitrary: s) (simp_all add: handleFormChange_frame)

subsection \<open>Datasets\<close>

lemma mk_dataset_label: "d_label (mk_dataset P colors hid e) = fst e"
  by (simp add: mk_dataset_def split: prod.splits)

lemma mk_dataset_hidden: "d_hidden (mk_dataset P colors hid e) = (fst e \<in> hid)"
  by (simp add: mk_dataset_def split: prod.splits)

lemma mk_dataset_data: "d_data (mk_dataset P colors hid e) = map (mk_point P (fst e)) (snd e)"
  by (simp add: mk_dataset_def split: prod.splits)

lemma mk_dataset_rehide:
  "mk_dataset P colors hid' e = (mk_dataset P colors hid e)\<lparr>d_hidden := (fst e \<in> hid')\<rparr>"
  by (simp add: mk_dataset_def split: prod.splits)

lemma chartData_Inl:
  "chartData P ms ts hid colors = Inl e \<longleftrightarrow> group_milestones [] ms = Inl e"
  by (simp add: chartData_def split: sum.splits)

lemma chartData_Inr:
  "chartData P ms ts hid colors = Inr c \<longleftrightarrow>
   (\<exists>g. group_milestones [] ms = Inr g
      \<and> c = \<lparr>labels = ts, datasets = map (mk_dataset P colors hid) (object_entries g)\<rparr>)"
  by (auto simp: chartData_def split: sum.splits)

section \<open>The claims\<close>

subsection \<open>Timeline index (C1)\<close>

text \<open>
  Claim C1. For every milestone collection the timeline index is the sequence of distinct
  timeline values in first-seen order of the stored order: it equals the scan of the
  specification (collect a value the first time it is seen, skip it afterwards), holds no
  value twice and holds exactly the timeline values of the collection. Nothing is sorted,
  and being a function of the collection, recomputing it gives the same sequence.
\<close>

theorem timelines_first_seen_order:
  "timelines ms = first_seen {} (map m_timeline ms)
   \<and> distinct (timelines ms)
   \<and> set (timelines ms) = m_timeline ` set ms"
  using foldl_set_add_first_seen[of "[]" "map m_timeline ms"]
  by (simp add: distinct_timelines set_timelines) (simp add: timelines_def new_Set_def)

text \<open>The example of the claim: timelines Work, Home, Work give the index Work, Home.\<close>

theorem timelines_first_seen_order_witness:
  "timelines [milestoneOf ''a'' ''Ship'' ''Work'' ''2010-06-01'' ''2010-07-01'',
              milestoneOf ''b'' ''Move'' ''Home'' ''2010-06-01'' ''2010-07-01'',
              milestoneOf ''c'' ''Hire'' ''Work'' ''2010-07-01'' ''2015-01-01'']
   = [''Work'', ''Home'']"
  using timelines_first_seen_order
    [of "[milestoneOf ''a'' ''Ship'' ''Work'' ''2010-06-01'' ''2010-07-01'',
          milestoneOf ''b'' ''Move'' ''Home'' ''2010-06-01'' ''2010-07-01'',
          milestoneOf ''c'' ''Hire'' ''Work'' ''2010-07-01'' ''2015-01-01'']"]
  by (simp add: milestoneOf_def)

subsection \<open>Order of the datasets (C2)\<close>

text \<open>
  The datasets are read off the grouping object with \<^verbatim>\<open>Object.entries\<close>, not off the
  timeline index. For timelines that are neither array indices nor names of inherited
  properties the two orders agree: there is one dataset per timeline, in index order, and
  its points are the milestones of that timeline in stored order; dates are not compared.
\<close>

lemma render_chartData_plain_keys:
  assumes "\<forall>m \<in> set (milestones s).
      m_timeline m \<notin> set objectPrototypeKeys \<and> \<not> is_array_index (m_timeline m)"
  shows "\<exists>c. render_chartData P s = Inr c
     \<and> labels c = timelines (milestones s)
     \<and> map d_label (datasets c) = timelines (milestones s)
     \<and> map d_data (datasets c)
        = map (\<lambda>t. map (mk_point P t) (filter (\<lambda>m. m_timeline m = t) (milestones s)))
            (timelines (milestones s))"
  using chartData_plain_keys[OF assms, of P "hidden s" "timelineColors (timelines (milestones s))"]
  by (simp add: render_chartData_def comp_def mk_dataset_label mk_dataset_data)

text \<open>The two-milestone scenario of the specification, Education before Career.\<close>

lemma render_chartData_scenario:
  "render_chartData sampleParseISO
     (initialState [milestoneOf ''id-1'' ''Graduate'' ''Education'' ''2010-06-01'' ''2010-06-01'',
                    milestoneOf ''id-2'' ''First Job'' ''Career'' ''2010-07-01'' ''2015-01-01''])
   = Inr \<lparr>labels = [''Education'', ''Career''],
          datasets =
            [\<lparr>d_label = ''Education'',
              d_data = [\<lparr>p_x = (Ms 1275350400000, Ms 1275350400000), p_y = ''Education'',
                         p_title = ''Graduate'', p_id = ''id-1''\<rparr>],
              d_backgroundColor = ''#42A5F5'', d_borderColor = ''#1E88E5'', d_borderWidth = 1,
              d_borderRadius = 4, d_hidden = False\<rparr>,
             \<lparr>d_label = ''Career'',
              d_data = [\<lparr>p_x = (Ms 1277942400000, Ms 1420070400000), p_y = ''Career'',
                         p_title = ''First Job'', p_id = ''id-2''\<rparr>],
              d_backgroundColor = ''#66BB6A'', d_borderColor = ''#43A047'', d_borderWidth = 1,
              d_borderRadius = 4, d_hidden = False\<rparr>]\<rparr>"
  by (simp add: render_chartData_def chartData_def initialState_def milestoneOf_def
      inherited_only_def objectPrototypeKeys_def object_entries_def is_array_index_def
      is_digit_def mk_dataset_def mk_point_def colorOf_def timelineColors_def setColor_def
      getColorFamily_def colorFamilies_def timelines_def new_Set_def set_add_def
      sampleParseISO_def)

text \<open>A timeline named like an inherited property stops the transform.\<close>

lemma render_chartData_inherited_key:
  "render_chartData sampleParseISO
     (initialState [milestoneOf ''id-1'' ''Born'' ''constructor'' ''2010-06-01'' ''2010-06-01''])
   = Inl TypeError"
  by (simp add: render_chartData_def chartData_def initialState_def milestoneOf_def
      inherited_only_def objectPrototypeKeys_def)

text \<open>
  Claim C2 says that for every collection the datasets appear in the order of the timeline
  index. With a timeline called \<^verbatim>\<open>2020\<close> after a timeline called \<^verbatim>\<open>Work\<close>, the
  index and the category axis are Work, 2020, but the datasets come out as 2020, Work:
  the key \<^verbatim>\<open>2020\<close> is an array index and \<^verbatim>\<open>Object.entries\<close> lists it first.
\<close>

theorem render_chartData_index_key_first:
  "timelines [milestoneOf ''id-1'' ''First Job'' ''Work'' ''2010-07-01'' ''2015-01-01'',
              milestoneOf ''id-2'' ''Graduate'' ''2020'' ''2010-06-01'' ''2010-06-01'']
     = [''Work'', ''2020'']
   \<and> map_sum id (\<lambda>c. (labels c, map d_label (datasets c)))
        (render_chartData sampleParseISO
           (initialState [milestoneOf ''id-1'' ''First Job'' ''Work'' ''2010-07-01'' ''2015-01-01'',
                          milestoneOf ''id-2'' ''Graduate'' ''2020'' ''2010-06-01'' ''2010-06-01'']))
     = Inr ([''Work'', ''2020''], [''2020'', ''Work''])"
  by (simp add: render_chartData_def chartData_def initialState_def milestoneOf_def
      inherited_only_def objectPrototypeKeys_def object_entries_def is_array_index_def
      is_digit_def digits_value_def mk_dataset_def colorOf_def timelineColors_def setColor_def
      getColorFamily_def colorFamilies_def timelines_def new_Set_def set_add_def)

subsection \<open>Colour assignment (C3)\<close>

text \<open>
  Claim C3. The palette has five entries, and the colour triple of a timeline depends only
  on its zero-based position in the timeline index: the triple stored for the timeline at
  position \<open>i\<close>, and the one the chart reads back for it, is palette entry \<open>i mod 5\<close>,
  whatever the timeline is called.
\<close>

theorem color_by_position:
  "length colorFamilies = 5
   \<and> getColorFamily i = colorFamilies ! (i mod 5)
   \<and> (i < length (timelines ms) \<longrightarrow>
        timelineColors (timelines ms) (timelines ms ! i) = Some (colorFamilies ! (i mod 5))
        \<and> colorOf (timelineColors (timelines ms)) (timelines ms ! i) = colorFamilies ! (i mod 5))"
proof -
  have len: "length colorFamilies = 5" by (simp add: colorFamilies_def)
  have g: "getColorFamily i = colorFamilies ! (i mod 5)" by (simp add: getColorFamily_def len)
  show ?thesis
    using len g timelineColors_nth[OF distinct_timelines, of i ms]
    by (simp add: colorOf_def)
qed

text \<open>
  With six distinct timelines the first and the sixth both receive palette entry 0.
\<close>

theorem color_by_position_witness:
  "5 < length (timelines sixTimelines)
   \<and> timelines sixTimelines ! 0 = ''Zeta'' \<and> timelines sixTimelines ! 5 = ''Alpha''
   \<and> colorOf (timelineColors (timelines sixTimelines)) ''Zeta'' = (''#E3F2FD'', ''#42A5F5'', ''#1E88E5'')
   \<and> colorOf (timelineColors (timelines sixTimelines)) ''Alpha'' = (''#E3F2FD'', ''#42A5F5'', ''#1E88E5'')"
proof -
  have t: "timelines sixTimelines = [''Zeta'', ''Work'', ''Home'', ''Art'', ''Kids'', ''Alpha'']"
    by (simp add: sixTimelines_def milestoneOf_def timelines_def new_Set_def set_add_def)
  show ?thesis
    using color_by_position[of 0 sixTimelines] color_by_position[of 5 sixTimelines]
    by (simp add: t colorFamilies_def)
qed

subsection \<open>Adding a milestone (C4)\<close>




subsection \<open>Unparseable dates (C5)\<close>

text \<open>
  Claim C5 says that a milestone whose start or end does not parse makes the transform fail
  with an invalid-date error instead of producing an invalid range. The transform has no
  such check. A milestone whose start is the string \<^verbatim>\<open>not-a-date\<close> goes through: the
  chart is returned, and the range of its point holds \<open>NaN\<close> as start.
\<close>

theorem chartData_invalid_date_counterexample:
  "render_chartData sampleParseISO
     (initialState [milestoneOf ''id-1'' ''Trip'' ''Travel'' ''not-a-date'' ''2010-07-01''])
   = Inr \<lparr>labels = [''Travel''],
          datasets =
            [\<lparr>d_label = ''Travel'',
              d_data = [\<lparr>p_x = (NaN, Ms 1277942400000), p_y = ''Travel'', p_title = ''Trip'',
                         p_id = ''id-1''\<rparr>],
              d_backgroundColor = ''#42A5F5'', d_borderColor = ''#1E88E5'', d_borderWidth = 1,
              d_borderRadius = 4, d_hidden = False\<rparr>]\<rparr>"
  by (simp add: render_chartData_def chartData_def initialState_def milestoneOf_def
      inherited_only_def objectPrototypeKeys_def object_entries_def is_array_index_def
      is_digit_def mk_dataset_def mk_point_def colorOf_def timelineColors_def setColor_def
      getColorFamily_def colorFamilies_def timelines_def new_Set_def set_add_def
      sampleParseISO_def)

text \<open>
  Claim C5 as amended. The transform never looks at whether a date parsed. Whether it returns
  a chart does not depend on the parser at all: an error with one parser is the same error
  with any other, and when no timeline is the name of a property of \<^verbatim>\<open>Object.prototype\<close>
  a chart is returned. In a returned chart every milestone has its point in the dataset of
  its timeline, and the range of the point is the pair of whatever the parser gave for
  start and end, \<open>NaN\<close> included.
\<close>

theorem chartData_dates_unchecked:
  "(render_chartData P s = Inl e \<longrightarrow> render_chartData P' s = Inl e)
   \<and> ((\<forall>m \<in> set (milestones s). m_timeline m \<notin> set objectPrototypeKeys) \<longrightarrow>
        (\<exists>c. render_chartData P s = Inr c))
   \<and> (render_chartData P s = Inr c \<and> m \<in> set (milestones s) \<longrightarrow>
        (\<exists>d \<in> set (datasets c). d_label d = m_timeline m
           \<and> \<lparr>p_x = (P (m_start m), P (m_end m)), p_y = m_timeline m, p_title = m_title m,
               p_id = m_id m\<rparr> \<in> set (d_data d)))"
proof -
  have a: "render_chartData P' s = Inl e" if "render_chartData P s = Inl e"
    using that by (simp add: render_chartData_def chartData_Inl)
  have b: "\<exists>c. render_chartData P s = Inr c"
    if "\<forall>m \<in> set (milestones s). m_timeline m \<notin> set objectPrototypeKeys"
    using group_milestones_foldl[OF that, of "[]"]
    by (simp add: render_chartData_def chartData_def)
  have c: "\<exists>d \<in> set (datasets c). d_label d = m_timeline m
           \<and> \<lparr>p_x = (P (m_start m), P (m_end m)), p_y = m_timeline m, p_title = m_title m,
               p_id = m_id m\<rparr> \<in> set (d_data d)"
    if r: "render_chartData P s = Inr c" and m: "m \<in> set (milestones s)"
  proof -
    let ?colors = "timelineColors (timelines (milestones s))"
    from r obtain g where g: "group_milestones [] (milestones s) = Inr g"
      and cd: "datasets c = map (mk_dataset P ?colors (hidden s)) (object_entries g)"
      by (auto simp: render_chartData_def chartData_Inr)
    from group_milestones_member[OF g m] obtain grp
      where grp: "(m_timeline m, grp) \<in> set g" "m \<in> set grp" by blast
    let ?d = "mk_dataset P ?colors (hidden s) (m_timeline m, grp)"
    have "?d \<in> set (datasets c)"
      using grp(1) by (simp add: cd set_object_entries)
    moreover have "d_label ?d = m_timeline m"
      by (simp add: mk_dataset_label)
    moreover have "mk_point P (m_timeline m) m \<in> set (d_data ?d)"
      using grp(2) by (simp add: mk_dataset_data)
    ultimately show ?thesis
      by (auto simp: mk_point_def)
  qed
  show ?thesis
    using a b c by blast
qed

text \<open>
  A milestone whose end is no date: the chart is returned and holds the point. A collection
  on which the grouping fails does so with a parser that rejects every string as well.
\<close>

theorem chartData_dates_unchecked_witness:
  "(\<exists>c. render_chartData sampleParseISO
           (initialState [milestoneOf ''id-1'' ''Trip'' ''Travel'' ''2010-06-01'' ''someday'']) = Inr c
        \<and> (\<exists>d \<in> set (datasets c). d_label d = ''Travel''
             \<and> \<lparr>p_x = (Ms 1275350400000, NaN), p_y = ''Travel'', p_title = ''Trip'',
                 p_id = ''id-1''\<rparr> \<in> set (d_data d)))
   \<and> render_chartData (\<lambda>d. NaN)
        (initialState [milestoneOf ''id-1'' ''Born'' ''constructor'' ''2010-06-01'' ''2010-06-01''])
      = Inl TypeError"
proof -
  let ?m = "milestoneOf ''id-1'' ''Trip'' ''Travel'' ''2010-06-01'' ''someday''"
  let ?s = "initialState [?m]"
  let ?b = "initialState [milestoneOf ''id-1'' ''Born'' ''constructor'' ''2010-06-01'' ''2010-06-01'']"
  have k: "\<forall>m \<in> set (milestones ?s). m_timeline m \<notin> set objectPrototypeKeys"
    by (simp add: initialState_def milestoneOf_def objectPrototypeKeys_def)
  have p: "sampleParseISO (m_start ?m) = Ms 1275350400000" "sampleParseISO (m_end ?m) = NaN"
    "m_timeline ?m = ''Travel''" "m_title ?m = ''Trip''" "m_id ?m = ''id-1''"
    by (simp_all add: sampleParseISO_def milestoneOf_def)
  have i: "?m \<in> set (milestones ?s)" by (simp add: initialState_def)
  from chartData_dates_unchecked[of sampleParseISO ?s] k
  obtain c where c: "render_chartData sampleParseISO ?s = Inr c" by blast
  from chartData_dates_unchecked[of sampleParseISO ?s _ _ c ?m] c i p
  have first: "\<exists>c. render_chartData sampleParseISO ?s = Inr c
        \<and> (\<exists>d \<in> set (datasets c). d_label d = ''Travel''
             \<and> \<lparr>p_x = (Ms 1275350400000, NaN), p_y = ''Travel'', p_title = ''Trip'',
                 p_id = ''id-1''\<rparr> \<in> set (d_data d))"
    by auto
  have "render_chartData sampleParseISO ?b = Inl TypeError"
    by (simp add: render_chartData_def chartData_def initialState_def milestoneOf_def
        inherited_only_def objectPrototypeKeys_def)
  with chartData_dates_unchecked[of sampleParseISO ?b TypeError "\<lambda>d. NaN"]
  have second: "render_chartData (\<lambda>d. NaN) ?b = Inl TypeError"
    by blast
  from first second show ?thesis by blast
qed

subsection \<open>Updating a milestone (C6, C7)\<close>

text \<open>
  Claim C6. When the form is valid and the collection holds a record with the id being
  edited, at position \<open>i\<close>, the submit keeps the length of the collection and the id at
  every position; the record at position \<open>i\<close> becomes the record built from the form,
  with the same id; every record with another id is unchanged; and when the ids of the
  collection are pairwise distinct, the new collection is the old one with position \<open>i\<close>
  replaced.
\<close>

theorem handleSubmit_update_in_place:
  assumes "f_title (form s) \<noteq> []" and "f_timeline (form s) \<noteq> []"
    and "f_start (form s) \<noteq> []" and "f_end (form s) \<noteq> []"
    and "editingId s = Some e" and "e \<noteq> []"
    and "i < length (milestones s)" and "m_id (milestones s ! i) = e"
  shows "length (milestones (handleSubmit uuid s)) = length (milestones s)
     \<and> map m_id (milestones (handleSubmit uuid s)) = map m_id (milestones s)
     \<and> milestones (handleSubmit uuid s) ! i = newMilestone e (form s)
     \<and> m_id (milestones (handleSubmit uuid s) ! i) = e
     \<and> (\<forall>j < length (milestones s). m_id (milestones s ! j) \<noteq> e \<longrightarrow>
          milestones (handleSubmit uuid s) ! j = milestones s ! j)
     \<and> (distinct (map m_id (milestones s)) \<longrightarrow>
          milestones (handleSubmit uuid s) = (milestones s)[i := newMilestone e (form s)])"
proof -
  let ?n = "newMilestone e (form s)"
  let ?ms = "milestones s"
  have upd: "milestones (handleSubmit uuid s) = map (\<lambda>m. if m_id m = e then ?n else m) ?ms"
    using assms(1-6) by (simp add: handleSubmit_def truthy_def Let_def)
  have idn: "m_id ?n = e" by (simp add: newMilestone_def)
  have ids: "map m_id (map (\<lambda>m. if m_id m = e then ?n else m) ?ms) = map m_id ?ms"
    using idn by (simp add: map_replace_ids)
  have repl: "map (\<lambda>m. if m_id m = e then ?n else m) ?ms = ?ms[i := ?n]"
    if d: "distinct (map m_id ?ms)"
  proof (rule nth_equalityI)
    show "length (map (\<lambda>m. if m_id m = e then ?n else m) ?ms) = length (?ms[i := ?n])"
      by simp
  next
    fix j assume "j < length (map (\<lambda>m. if m_id m = e then ?n else m) ?ms)"
    then have j: "j < length ?ms" by simp
    show "map (\<lambda>m. if m_id m = e then ?n else m) ?ms ! j = ?ms[i := ?n] ! j"
    proof (cases "j = i")
      case True
      with assms(7,8) show ?thesis by simp
    next
      case False
      have "map m_id ?ms ! j \<noteq> map m_id ?ms ! i"
        using nth_eq_iff_index_eq[OF d, of j i] j assms(7) False by simp
      with j assms(7,8) False show ?thesis by simp
    qed
  qed
  show ?thesis
    using assms(7,8) idn ids repl by (simp add: upd)
qed

text \<open>Editing the first of two records replaces it where it stands.\<close>

theorem handleSubmit_update_in_place_witness:
  "milestones (handleSubmit ''id-9''
      ((initialState [milestoneOf ''id-1'' ''Graduate'' ''Education'' ''2010-06-01'' ''2010-06-01'',
                      milestoneOf ''id-2'' ''First Job'' ''Career'' ''2010-07-01'' ''2015-01-01''])
         \<lparr>form := formOf ''Diploma'' ''Career'' ''2010-06-01'' ''2010-07-01'',
          editingId := Some ''id-1''\<rparr>))
    = [milestoneOf ''id-1'' ''Diploma'' ''Career'' ''2010-06-01'' ''2010-07-01'',
       milestoneOf ''id-2'' ''First Job'' ''Career'' ''2010-07-01'' ''2015-01-01'']"
  using handleSubmit_update_in_place
    [of "(initialState [milestoneOf ''id-1'' ''Graduate'' ''Education'' ''2010-06-01'' ''2010-06-01'',
                        milestoneOf ''id-2'' ''First Job'' ''Career'' ''2010-07-01'' ''2015-01-01''])
           \<lparr>form := formOf ''Diploma'' ''Career'' ''2010-06-01'' ''2010-07-01'',
            editingId := Some ''id-1''\<rparr>" "''id-1''" 0 "''id-9''"]
  by (simp add: initialState_def formOf_def milestoneOf_def newMilestone_def)




subsection \<open>Visibility overlay (C8)\<close>

text \<open>
  Claim C8. For every state and every timeline key, toggling the key twice in succession
  gives back the state it started from, the hidden set included.
\<close>

theorem toggleTimeline_involution: "toggleTimeline t (toggleTimeline t s) = s"
  by (cases "t \<in> hidden s") (simp_all add: toggleTimeline_def insert_absorb)

text \<open>Hiding and showing again, and showing and hiding again, on a concrete overlay.\<close>

theorem toggleTimeline_involution_witness:
  "hidden (toggleTimeline ''Work'' ((initialState [])\<lparr>hidden := {''Work'', ''Home''}\<rparr>)) = {''Home''}
   \<and> toggleTimeline ''Work'' (toggleTimeline ''Work'' ((initialState [])\<lparr>hidden := {''Work'', ''Home''}\<rparr>))
       = (initialState [])\<lparr>hidden := {''Work'', ''Home''}\<rparr>
   \<and> toggleTimeline ''Art'' (toggleTimeline ''Art'' ((initialState [])\<lparr>hidden := {''Work'', ''Home''}\<rparr>))
       = (initialState [])\<lparr>hidden := {''Work'', ''Home''}\<rparr>"
  using toggleTimeline_involution[of "''Work''" "(initialState [])\<lparr>hidden := {''Work'', ''Home''}\<rparr>"]
    toggleTimeline_involution[of "''Art''" "(initialState [])\<lparr>hidden := {''Work'', ''Home''}\<rparr>"]
  by (auto simp: toggleTimeline_def initialState_def)

subsection \<open>Toggling a timeline (C9)\<close>

text \<open>
  Claim C9. Toggling a timeline changes the hidden set only: the key is removed if it was
  in the set and inserted otherwise, while the milestones, the form and the editing id stay
  as they are, and with the milestones the timeline index. The hidden set does not filter
  the chart: whenever a chart is built its category axis is the whole timeline index, every
  timeline of the collection has a slot on the axis and a dataset, hidden or not, and the
  hidden set shows only as the flag of each dataset, which tells whether its label is in the
  set. The chart after the toggle is the chart before it with the flags recomputed, and a
  render that fails before the toggle fails the same way after it.
\<close>

theorem toggleTimeline_frame:
  "milestones (toggleTimeline t s) = milestones s
   \<and> form (toggleTimeline t s) = form s
   \<and> editingId (toggleTimeline t s) = editingId s
   \<and> hidden (toggleTimeline t s) = (if t \<in> hidden s then hidden s - {t} else insert t (hidden s))
   \<and> timelines (milestones (toggleTimeline t s)) = timelines (milestones s)
   \<and> (render_chartData P s = Inl e \<longrightarrow> render_chartData P (toggleTimeline t s) = Inl e)
   \<and> (render_chartData P s = Inr c \<longrightarrow>
        labels c = timelines (milestones s)
        \<and> (\<forall>k \<in> m_timeline ` set (milestones s).
              k \<in> set (labels c) \<and> (\<exists>d \<in> set (datasets c). d_label d = k))
        \<and> (\<forall>d \<in> set (datasets c). d_hidden d = (d_label d \<in> hidden s))
        \<and> render_chartData P (toggleTimeline t s)
            = Inr (c\<lparr>datasets :=
                       map (\<lambda>d. d\<lparr>d_hidden := (d_label d \<in> hidden (toggleTimeline t s))\<rparr>)
                         (datasets c)\<rparr>))"
proof -
  let ?s' = "toggleTimeline t s"
  let ?colors = "timelineColors (timelines (milestones s))"
  have frame: "milestones ?s' = milestones s" "form ?s' = form s" "editingId ?s' = editingId s"
    "hidden ?s' = (if t \<in> hidden s then hidden s - {t} else insert t (hidden s))"
    by (simp_all add: toggleTimeline_def)
  have err: "render_chartData P ?s' = Inl e" if "render_chartData P s = Inl e"
    using that by (simp add: render_chartData_def chartData_Inl frame)
  have ok: "labels c = timelines (milestones s)
        \<and> (\<forall>k \<in> m_timeline ` set (milestones s).
              k \<in> set (labels c) \<and> (\<exists>d \<in> set (datasets c). d_label d = k))
        \<and> (\<forall>d \<in> set (datasets c). d_hidden d = (d_label d \<in> hidden s))
        \<and> render_chartData P ?s'
            = Inr (c\<lparr>datasets :=
                       map (\<lambda>d. d\<lparr>d_hidden := (d_label d \<in> hidden ?s')\<rparr>) (datasets c)\<rparr>)"
    if r: "render_chartData P s = Inr c"
  proof -
    from r obtain g where g: "group_milestones [] (milestones s) = Inr g"
      and c: "c = \<lparr>labels = timelines (milestones s),
                   datasets = map (mk_dataset P ?colors (hidden s)) (object_entries g)\<rparr>"
      by (auto simp: render_chartData_def chartData_Inr)
    have l: "labels c = timelines (milestones s)" by (simp add: c)
    have slot: "k \<in> set (labels c) \<and> (\<exists>d \<in> set (datasets c). d_label d = k)"
      if "k \<in> m_timeline ` set (milestones s)" for k
    proof -
      from that obtain m where m: "m \<in> set (milestones s)" "k = m_timeline m" by blast
      from group_milestones_member[OF g m(1)] obtain grp where "(k, grp) \<in> set g"
        using m(2) by blast
      then have "mk_dataset P ?colors (hidden s) (k, grp) \<in> set (datasets c)"
        by (simp add: c set_object_entries)
      moreover have "d_label (mk_dataset P ?colors (hidden s) (k, grp)) = k"
        by (simp add: mk_dataset_label)
      ultimately show ?thesis
        using that by (auto simp: l set_timelines)
    qed
    have flag: "\<forall>d \<in> set (datasets c). d_hidden d = (d_label d \<in> hidden s)"
      by (auto simp: c mk_dataset_label mk_dataset_hidden)
    have "map (mk_dataset P ?colors (hidden ?s')) (object_entries g)
        = map (\<lambda>d. d\<lparr>d_hidden := (d_label d \<in> hidden ?s')\<rparr>)
            (map (mk_dataset P ?colors (hidden s)) (object_entries g))"
      using mk_dataset_rehide[of P ?colors "hidden ?s'" _ "hidden s"]
      by (simp add: mk_dataset_label)
    then have after: "render_chartData P ?s'
        = Inr (c\<lparr>datasets :=
                   map (\<lambda>d. d\<lparr>d_hidden := (d_label d \<in> hidden ?s')\<rparr>) (datasets c)\<rparr>)"
      by (simp add: render_chartData_def chartData_def frame(1) g c)
    show ?thesis
      using l slot flag after by blast
  qed
  have tl: "timelines (milestones ?s') = timelines (milestones s)"
    by (simp add: frame(1))
  show ?thesis
    using frame tl err ok by blast
qed

text \<open>
  Hiding Career in the two-milestone scenario: both timelines remain on the axis and both
  datasets remain, the Career one now flagged as hidden. A render that fails keeps failing
  after a toggle.
\<close>

theorem toggleTimeline_frame_witness:
  "(\<exists>c. render_chartData sampleParseISO
          (initialState [milestoneOf ''id-1'' ''Graduate'' ''Education'' ''2010-06-01'' ''2010-06-01'',
                         milestoneOf ''id-2'' ''First Job'' ''Career'' ''2010-07-01'' ''2015-01-01''])
         = Inr c
       \<and> map (\<lambda>d. (d_label d, d_hidden d)) (datasets c) = [(''Education'', False), (''Career'', False)]
       \<and> (\<exists>c'. render_chartData sampleParseISO
                 (toggleTimeline ''Career''
                    (initialState [milestoneOf ''id-1'' ''Graduate'' ''Education'' ''2010-06-01'' ''2010-06-01'',
                                   milestoneOf ''id-2'' ''First Job'' ''Career'' ''2010-07-01'' ''2015-01-01'']))
                = Inr c'
              \<and> labels c' = [''Education'', ''Career'']
              \<and> map (\<lambda>d. (d_label d, d_hidden d)) (datasets c')
                  = [(''Education'', False), (''Career'', True)]))
   \<and> render_chartData sampleParseISO
        (toggleTimeline ''constructor''
           (initialState [milestoneOf ''id-1'' ''Born'' ''constructor'' ''2010-06-01'' ''2010-06-01'']))
      = Inl TypeError"
proof -
  let ?b = "initialState [milestoneOf ''id-1'' ''Born'' ''constructor'' ''2010-06-01'' ''2010-06-01'']"
  have "render_chartData sampleParseISO ?b = Inl TypeError"
    by (simp add: render_chartData_def chartData_def initialState_def milestoneOf_def
        inherited_only_def objectPrototypeKeys_def)
  with toggleTimeline_frame[of "''constructor''" ?b sampleParseISO TypeError]
  have second: "render_chartData sampleParseISO (toggleTimeline ''constructor'' ?b) = Inl TypeError"
    by blast
  let ?s = "initialState [milestoneOf ''id-1'' ''Graduate'' ''Education'' ''2010-06-01'' ''2010-06-01'',
                          milestoneOf ''id-2'' ''First Job'' ''Career'' ''2010-07-01'' ''2015-01-01'']"
  let ?c = "\<lparr>labels = [''Education'', ''Career''],
          datasets =
            [\<lparr>d_label = ''Education'',
              d_data = [\<lparr>p_x = (Ms 1275350400000, Ms 1275350400000), p_y = ''Education'',
                         p_title = ''Graduate'', p_id = ''id-1''\<rparr>],
              d_backgroundColor = ''#42A5F5'', d_borderColor = ''#1E88E5'', d_borderWidth = 1,
              d_borderRadius = 4, d_hidden = False\<rparr>,
             \<lparr>d_label = ''Career'',
              d_data = [\<lparr>p_x = (Ms 1277942400000, Ms 1420070400000), p_y = ''Career'',
                         p_title = ''First Job'', p_id = ''id-2''\<rparr>],
              d_backgroundColor = ''#66BB6A'', d_borderColor = ''#43A047'', d_borderWidth = 1,
              d_borderRadius = 4, d_hidden = False\<rparr>]\<rparr>"
  have r: "render_chartData sampleParseISO ?s = Inr ?c"
    by (simp add: render_chartData_def chartData_def initialState_def milestoneOf_def
      inherited_only_def objectPrototypeKeys_def object_entries_def is_array_index_def
      is_digit_def mk_dataset_def mk_point_def colorOf_def timelineColors_def setColor_def
      getColorFamily_def colorFamilies_def timelines_def new_Set_def set_add_def
      sampleParseISO_def)
  have h: "hidden (toggleTimeline ''Career'' ?s) = {''Career''}"
    by (simp add: toggleTimeline_def initialState_def)
  from toggleTimeline_frame[of "''Career''" ?s sampleParseISO _ ?c] r
  have "render_chartData sampleParseISO (toggleTimeline ''Career'' ?s)
      = Inr (?c\<lparr>datasets :=
                  map (\<lambda>d. d\<lparr>d_hidden := (d_label d \<in> hidden (toggleTimeline ''Career'' ?s))\<rparr>)
                    (datasets ?c)\<rparr>)"
    by blast
  with r second show ?thesis
    by (simp add: h)
qed

subsection \<open>Deleting the milestone being edited (C10)\<close>

text \<open>
  Claim C10. Deleting removes the records with the given id. If that id is the one being
  edited, the editing id becomes \<^verbatim>\<open>null\<close> and the form is cleared; whatever is then
  typed into the form, the next submit is either rejected or appends a new record behind
  the remaining ones, and never replaces one. Deleting any other id leaves the editing id
  and the form as they were.
\<close>

theorem handleDelete_editing_state:
  "milestones (handleDelete i s) = filter (\<lambda>m. m_id m \<noteq> i) (milestones s)
   \<and> (editingId s = Some i \<longrightarrow>
        editingId (handleDelete i s) = None \<and> form (handleDelete i s) = clearedForm
        \<and> milestones (handleSubmit uuid
             (fold (\<lambda>c. handleFormChange (fst c) (snd c)) cs (handleDelete i s)))
           = (if f_title (form (fold (\<lambda>c. handleFormChange (fst c) (snd c)) cs (handleDelete i s))) = []
                \<or> f_timeline (form (fold (\<lambda>c. handleFormChange (fst c) (snd c)) cs (handleDelete i s))) = []
                \<or> f_start (form (fold (\<lambda>c. handleFormChange (fst c) (snd c)) cs (handleDelete i s))) = []
                \<or> f_end (form (fold (\<lambda>c. handleFormChange (fst c) (snd c)) cs (handleDelete i s))) = []
              then milestones (handleDelete i s)
              else milestones (handleDelete i s)
                   @ [newMilestone uuid
                        (form (fold (\<lambda>c. handleFormChange (fst c) (snd c)) cs (handleDelete i s)))]))
   \<and> (editingId s \<noteq> Some i \<longrightarrow>
        editingId (handleDelete i s) = editingId s \<and> form (handleDelete i s) = form s)"
proof -
  let ?d = "handleDelete i s"
  let ?t = "fold (\<lambda>c. handleFormChange (fst c) (snd c)) cs ?d"
  have ms: "milestones ?d = filter (\<lambda>m. m_id m \<noteq> i) (milestones s)"
    by (simp add: handleDelete_def Let_def)
  have other: "editingId ?d = editingId s \<and> form ?d = form s" if "editingId s \<noteq> Some i"
    using that by (simp add: handleDelete_def Let_def)
  have same: "editingId ?d = None \<and> form ?d = clearedForm" if "editingId s = Some i"
    using that by (simp add: handleDelete_def Let_def)
  have sub: "milestones (handleSubmit uuid ?t)
      = (if f_title (form ?t) = [] \<or> f_timeline (form ?t) = [] \<or> f_start (form ?t) = []
            \<or> f_end (form ?t) = []
         then milestones ?d else milestones ?d @ [newMilestone uuid (form ?t)])"
    if "editingId s = Some i"
  proof -
    have e: "editingId ?t = None" and m: "milestones ?t = milestones ?d"
      using same[OF that] fold_handleFormChange_frame[of cs ?d] by simp_all
    show ?thesis
      by (simp add: handleSubmit_def Let_def truthy_def e m)
  qed
  show ?thesis
    using ms other same sub by blast
qed

text \<open>
  Deleting the record under edit, typing a complete form, and submitting: the record is
  gone and the submission is a new record with the generated id. Deleting another record
  keeps the edit going.
\<close>

theorem handleDelete_editing_state_witness:
  "milestones (handleSubmit ''id-9''
      (fold (\<lambda>c. handleFormChange (fst c) (snd c))
         [(Title, ''Move''), (Timeline, ''Home''), (Start, ''2010-06-01''), (End, ''2010-07-01'')]
         (handleDelete ''id-1''
            (handleEdit (milestoneOf ''id-1'' ''Graduate'' ''Education'' ''2010-06-01'' ''2010-06-01'')
               (initialState [milestoneOf ''id-1'' ''Graduate'' ''Education'' ''2010-06-01'' ''2010-06-01'',
                              milestoneOf ''id-2'' ''First Job'' ''Career'' ''2010-07-01'' ''2015-01-01''])))))
    = [milestoneOf ''id-2'' ''First Job'' ''Career'' ''2010-07-01'' ''2015-01-01'',
       \<lparr>m_id = ''id-9'', m_title = ''Move'', m_timeline = ''Home'', m_start = ''2010-06-01'',
        m_end = ''2010-07-01'', m_notes = None\<rparr>]
   \<and> editingId (handleDelete ''id-2''
        (handleEdit (milestoneOf ''id-1'' ''Graduate'' ''Education'' ''2010-06-01'' ''2010-06-01'')
           (initialState [milestoneOf ''id-1'' ''Graduate'' ''Education'' ''2010-06-01'' ''2010-06-01'',
                          milestoneOf ''id-2'' ''First Job'' ''Career'' ''2010-07-01'' ''2015-01-01''])))
      = Some ''id-1''"
  using handleDelete_editing_state
    [of "''id-1''"
        "handleEdit (milestoneOf ''id-1'' ''Graduate'' ''Education'' ''2010-06-01'' ''2010-06-01'')
           (initialState [milestoneOf ''id-1'' ''Graduate'' ''Education'' ''2010-06-01'' ''2010-06-01'',
                          milestoneOf ''id-2'' ''First Job'' ''Career'' ''2010-07-01'' ''2015-01-01''])"
        "''id-9''"
        "[(Title, ''Move''), (Timeline, ''Home''), (Start, ''2010-06-01''), (End, ''2010-07-01'')]"]
    handleDelete_editing_state
    [of "''id-2''"
        "handleEdit (milestoneOf ''id-1'' ''Graduate'' ''Education'' ''2010-06-01'' ''2010-06-01'')
           (initialState [milestoneOf ''id-1'' ''Graduate'' ''Education'' ''2010-06-01'' ''2010-06-01'',
                          milestoneOf ''id-2'' ''First Job'' ''Career'' ''2010-07-01'' ''2015-01-01''])"
        "''id-9''" "[]"]
  by (simp add: handleDelete_def handleEdit_def initialState_def milestoneOf_def
      clearedForm_def newMilestone_def Let_def)

end
